theory Spec2Isabelle
  imports Main
begin

section \<open>Cythoner: the renderer of \<^verbatim>\<open>src/__init__.py\<close>\<close>

text \<open>
  The program walks a Python syntax tree (module \<^verbatim>\<open>ast\<close>) and renders Cython text.
  The model below follows CPython 3.10 to 3.13: the \<^verbatim>\<open>match\<close> statement of the
  source needs 3.10, and up to 3.13 a syntax-tree node has no \<^verbatim>\<open>__str__\<close> or
  \<^verbatim>\<open>__repr__\<close> of its own, so that \<^verbatim>\<open>str(node)\<close> is the default text of an object,
  such as \<^verbatim>\<open><ast.Name object at 0x7f3a5c0b1e50>\<close>, built from the class name and the
  address of the object.

  Every exception the source can raise is a value of type \<open>error\<close>; a function that
  can raise returns \<open>error + 'a\<close>, with \<open>Inl\<close> for the exception.
\<close>

subsection \<open>Strings\<close>

definition nl :: string where
  "nl = [CHR 0x0A]"

definition quote :: string where
  "quote = [CHR 0x27]"

text \<open>\<^verbatim>\<open>space(n)\<close>, lines 47-55: \<^verbatim>\<open>' ' * n\<close>.\<close>

definition space :: "nat \<Rightarrow> string" where
  "space n = replicate n (CHR '' '')"

text \<open>\<^verbatim>\<open>sep.join(xs)\<close> of Python.\<close>

fun join :: "string \<Rightarrow> string list \<Rightarrow> string" where
  "join sep [] = []"
| "join sep [x] = x"
| "join sep (x # y # ys) = x @ sep @ join sep (y # ys)"

text \<open>The number of leading space characters of a text.\<close>

definition leading_spaces :: "string \<Rightarrow> nat" where
  "leading_spaces t = length (takeWhile (\<lambda>c. c = CHR '' '') t)"

definition digit_char :: "nat \<Rightarrow> char" where
  "digit_char d = ''0123456789abcdef'' ! d"

text \<open>Decimal and hexadecimal digits of a natural number, most significant first.\<close>

fun dec :: "nat \<Rightarrow> string" where
  "dec n = (if n < 10 then [digit_char n] else dec (n div 10) @ [digit_char (n mod 10)])"

fun hex :: "nat \<Rightarrow> string" where
  "hex n = (if n < 16 then [digit_char n] else hex (n div 16) @ [digit_char (n mod 16)])"

declare dec.simps [simp del] hex.simps [simp del]

text \<open>\<^verbatim>\<open>str(i)\<close> for a Python integer.\<close>

definition str_int :: "int \<Rightarrow> string" where
  "str_int i = (if i < 0 then ''-'' @ dec (nat (- i)) else dec (nat i))"

subsection \<open>The operator table\<close>

text \<open>
  The classes of the operator nodes of \<^verbatim>\<open>ast\<close>: the binary operators (\<^verbatim>\<open>ast.operator\<close>)
  and the comparison operators (\<^verbatim>\<open>ast.cmpop\<close>). \<^verbatim>\<open>ast.Pow\<close> is \<open>Pow_op\<close> here.
\<close>

datatype opkind =
    Add | Sub | Mult | MatMult | Div | Pow_op | Mod | LShift | RShift
  | BitOr | BitXor | BitAnd | FloorDiv
  | Eq | NotEq | Lt | LtE | Gt | GtE | Is | IsNot | In | NotIn

text \<open>
  The keys the source looks up in \<^verbatim>\<open>operators\<close> are types: the class of an operator
  node (\<^verbatim>\<open>type(expr.op)\<close>), and at line 213 the type of \<^verbatim>\<open>expr.ops\<close>, which is
  \<^verbatim>\<open>list\<close>.
\<close>

datatype pytype = OpClass opkind | ListClass

text \<open>The dictionary \<^verbatim>\<open>operators\<close>, lines 21-44, in the order of the source.\<close>

definition operators_table :: "(pytype \<times> string) list" where
  "operators_table =
    [(OpClass Add, ''+''),
     (OpClass Sub, ''-''),
     (OpClass Mult, ''*''),
     (OpClass Div, ''/''),
     (OpClass Pow_op, ''**''),
     (OpClass Mod, ''%''),
     (OpClass LShift, ''<<''),
     (OpClass RShift, ''>>''),
     (OpClass BitOr, ''|''),
     (OpClass BitXor, ''^''),
     (OpClass BitAnd, ''&''),
     (OpClass FloorDiv, ''//''),
     (OpClass Eq, ''==''),
     (OpClass NotEq, ''!=''),
     (OpClass Lt, ''<''),
     (OpClass LtE, ''<=''),
     (OpClass Gt, ''>''),
     (OpClass GtE, ''>=''),
     (OpClass Is, ''is''),
     (OpClass IsNot, ''is not''),
     (OpClass In, ''in''),
     (OpClass NotIn, ''not in'')]"

definition operators :: "pytype \<Rightarrow> string option" where
  "operators = map_of operators_table"

subsection \<open>Syntax trees\<close>

datatype error =
    TypeError string
  | AttributeError string string
  | KeyError pytype
  | IndexError
  | FileNotFoundError string
  | SyntaxError

text \<open>
  The value of an \<^verbatim>\<open>ast.Constant\<close>. The source only asks whether it is a \<^verbatim>\<open>str\<close> and
  otherwise calls \<^verbatim>\<open>str\<close> on it: a value of another type (float, complex, bytes,
  Ellipsis) is \<open>COther\<close> with the text \<^verbatim>\<open>str\<close> gives for it.
\<close>

datatype pyconst = CStr string | CInt int | CBool bool | CNone | COther string

fun py_str :: "pyconst \<Rightarrow> string" where
  "py_str (CStr s) = s"
| "py_str (CInt i) = str_int i"
| "py_str (CBool b) = (if b then ''True'' else ''False'')"
| "py_str CNone = ''None''"
| "py_str (COther t) = t"

text \<open>
  Expression nodes. The first field of every node is the address of the object, which the
  source reads through \<^verbatim>\<open>str(node)\<close> only. The other fields are the attributes the
  source reads: \<^verbatim>\<open>Name(id)\<close>, \<^verbatim>\<open>Constant(value)\<close>, \<^verbatim>\<open>Call(func, args)\<close>,
  \<^verbatim>\<open>Attribute(value, attr)\<close>, \<^verbatim>\<open>BinOp(left, op, right)\<close>,
  \<^verbatim>\<open>Compare(left, ops, comparators)\<close>, \<^verbatim>\<open>List(elts)\<close>. \<open>OtherExpr\<close> is a node of
  any other expression class that has no attribute \<^verbatim>\<open>value\<close> (\<^verbatim>\<open>UnaryOp\<close>, \<^verbatim>\<open>BoolOp\<close>,
  \<^verbatim>\<open>Tuple\<close>, \<^verbatim>\<open>Dict\<close>, \<^verbatim>\<open>Lambda\<close>, \<^verbatim>\<open>IfExp\<close>, ...), given by its class name. The
  expression classes with an attribute \<^verbatim>\<open>value\<close> other than \<^verbatim>\<open>Constant\<close> and
  \<^verbatim>\<open>Attribute\<close> (\<^verbatim>\<open>Subscript\<close>, \<^verbatim>\<open>Starred\<close>, \<^verbatim>\<open>Await\<close>, ...) are outside the model.
\<close>

datatype expr =
    Name nat string
  | Constant nat pyconst
  | Call nat expr "expr list"
  | Attribute nat expr string
  | BinOp nat expr opkind expr
  | Compare nat expr "opkind list" "expr list"
  | ListExpr nat "expr list"
  | OtherExpr nat string

fun class_name :: "expr \<Rightarrow> string" where
  "class_name (Name a i) = ''Name''"
| "class_name (Constant a v) = ''Constant''"
| "class_name (Call a f args) = ''Call''"
| "class_name (Attribute a v attr) = ''Attribute''"
| "class_name (BinOp a l op r) = ''BinOp''"
| "class_name (Compare a l ops cs) = ''Compare''"
| "class_name (ListExpr a es) = ''List''"
| "class_name (OtherExpr a c) = c"

fun address :: "expr \<Rightarrow> nat" where
  "address (Name a i) = a"
| "address (Constant a v) = a"
| "address (Call a f args) = a"
| "address (Attribute a v attr) = a"
| "address (BinOp a l op r) = a"
| "address (Compare a l ops cs) = a"
| "address (ListExpr a es) = a"
| "address (OtherExpr a c) = a"

text \<open>\<^verbatim>\<open>str(obj)\<close> for an object of a class of \<^verbatim>\<open>ast\<close> at an address.\<close>

definition object_str :: "string \<Rightarrow> nat \<Rightarrow> string" where
  "object_str cls a = ''<ast.'' @ cls @ '' object at 0x'' @ hex a @ ''>''"

definition str_node :: "expr \<Rightarrow> string" where
  "str_node e = object_str (class_name e) (address e)"

subsection \<open>Expressions: \<^verbatim>\<open>parse_atom\<close>, \<^verbatim>\<open>parse_expr\<close>, \<^verbatim>\<open>parse_args\<close>\<close>

text \<open>
  \<^verbatim>\<open>parse_atom\<close> (lines 89-103), \<^verbatim>\<open>parse_expr\<close> (lines 184-216) and the branch of
  \<^verbatim>\<open>parse_args\<close> for a list (lines 230-231) call each other.

  \<^item> \<open>parse_expr\<close> is \<^verbatim>\<open>parse_expr\<close> on an expression node. \<^verbatim>\<open>hasattr(expr, 'value')\<close>
    holds for \<open>Constant\<close>, whose value is no node, so that line 203 gives the text of the
    value, and for \<open>Attribute\<close>, whose value is a node.
  \<^item> \<open>parse_value owner v\<close> is lines 193-203 for a node of class \<open>owner\<close> whose attribute
    \<^verbatim>\<open>value\<close> is the node \<open>v\<close>. No class with an attribute \<^verbatim>\<open>value\<close> has an attribute
    \<^verbatim>\<open>id\<close>, so line 195 raises.
  \<^item> \<open>parse_atoms\<close> is \<^verbatim>\<open>map(self.parse_atom, arguments)\<close>, from left to right, ending at
    the first exception.
  \<^item> \<open>parse_args_list\<close> is \<^verbatim>\<open>parse_args\<close> on a list of expression nodes.

  The parts of an f-string are evaluated from left to right, so the first part that raises
  decides the exception.
\<close>

fun parse_atom :: "expr \<Rightarrow> error + string"
  and parse_expr :: "expr \<Rightarrow> error + string"
  and parse_value :: "string \<Rightarrow> expr \<Rightarrow> error + string"
  and parse_atoms :: "expr list \<Rightarrow> error + string list"
  and parse_args_list :: "expr list \<Rightarrow> error + string"
where
  "parse_atom (Name a i) = Inr i"
| "parse_atom (Constant a v) =
    Inr (case v of CStr s \<Rightarrow> quote @ s @ quote | _ \<Rightarrow> py_str v)"
| "parse_atom (Call a f args) = parse_expr (Call a f args)"
| "parse_atom (Attribute a v attr) = parse_expr (Attribute a v attr)"
| "parse_atom (BinOp a l op r) = parse_expr (BinOp a l op r)"
| "parse_atom (Compare a l ops cs) = parse_expr (Compare a l ops cs)"
| "parse_atom (ListExpr a es) = parse_expr (ListExpr a es)"
| "parse_atom (OtherExpr a c) = parse_expr (OtherExpr a c)"
| "parse_expr (Constant a v) = Inr (py_str v)"
| "parse_expr (Attribute a v attr) = parse_value ''Attribute'' v"
| "parse_expr (Call a f args) =
    (case f of
       Attribute fa fv fattr \<Rightarrow>
         (case parse_atom fv of
            Inl e \<Rightarrow> Inl e
          | Inr obj \<Rightarrow>
              (case parse_args_list args of
                 Inl e \<Rightarrow> Inl e
               | Inr r \<Rightarrow> Inr (obj @ ''.'' @ fattr @ ''('' @ r @ '')'')))
     | Name fa i \<Rightarrow>
         (case parse_args_list args of
            Inl e \<Rightarrow> Inl e
          | Inr r \<Rightarrow> Inr (i @ ''('' @ r @ '')''))
     | _ \<Rightarrow> Inl (AttributeError (class_name f) ''id''))"
| "parse_expr (BinOp a l op r) =
    (case parse_atom l of
       Inl e \<Rightarrow> Inl e
     | Inr ls \<Rightarrow>
         (case operators (OpClass op) of
            None \<Rightarrow> Inl (KeyError (OpClass op))
          | Some symb \<Rightarrow>
              (case parse_atom r of
                 Inl e \<Rightarrow> Inl e
               | Inr rs \<Rightarrow> Inr (ls @ '' '' @ symb @ '' '' @ rs))))"
| "parse_expr (Compare a l ops cs) =
    (case parse_atom l of
       Inl e \<Rightarrow> Inl e
     | Inr ls \<Rightarrow>
         (case operators ListClass of
            None \<Rightarrow> Inl (KeyError ListClass)
          | Some symb \<Rightarrow>
              (case cs of
                 [] \<Rightarrow> Inl IndexError
               | c # _ \<Rightarrow>
                   (case parse_atom c of
                      Inl e \<Rightarrow> Inl e
                    | Inr rs \<Rightarrow> Inr (ls @ '' '' @ symb @ '' '' @ rs)))))"
| "parse_expr (Name a i) = Inr (str_node (Name a i))"
| "parse_expr (ListExpr a es) = Inr (str_node (ListExpr a es))"
| "parse_expr (OtherExpr a c) = Inr (str_node (OtherExpr a c))"
| "parse_value owner (Name a i) = Inl (AttributeError owner ''id'')"
| "parse_value owner (Call a f args) =
    (case f of
       Attribute fa fv fattr \<Rightarrow>
         (case fv of
            Name va i \<Rightarrow>
              (case parse_args_list args of
                 Inl e \<Rightarrow> Inl e
               | Inr r \<Rightarrow> Inr (i @ ''.'' @ fattr @ ''('' @ r @ '')''))
          | _ \<Rightarrow> Inl (AttributeError (class_name fv) ''id''))
     | Name fa i \<Rightarrow>
         (case parse_args_list args of
            Inl e \<Rightarrow> Inl e
          | Inr r \<Rightarrow> Inr (i @ ''('' @ r @ '')''))
     | _ \<Rightarrow> Inl (AttributeError (class_name f) ''id''))"
| "parse_value owner (Constant a v) = Inr (str_node (Constant a v))"
| "parse_value owner (Attribute a v attr) = Inr (str_node (Attribute a v attr))"
| "parse_value owner (BinOp a l op r) = Inr (str_node (BinOp a l op r))"
| "parse_value owner (Compare a l ops cs) = Inr (str_node (Compare a l ops cs))"
| "parse_value owner (ListExpr a es) = Inr (str_node (ListExpr a es))"
| "parse_value owner (OtherExpr a c) = Inr (str_node (OtherExpr a c))"
| "parse_atoms [] = Inr []"
| "parse_atoms (x # xs) =
    (case parse_atom x of
       Inl e \<Rightarrow> Inl e
     | Inr s \<Rightarrow> (case parse_atoms xs of Inl e \<Rightarrow> Inl e | Inr ss \<Rightarrow> Inr (s # ss)))"
| "parse_args_list args =
    (case parse_atoms args of Inl e \<Rightarrow> Inl e | Inr ss \<Rightarrow> Inr (join '', '' ss))"

text \<open>\<^verbatim>\<open>parse_expr\<close> on an attribute that may be \<^verbatim>\<open>None\<close>: line 216 gives \<^verbatim>\<open>str(None)\<close>.\<close>

fun parse_expr_opt :: "expr option \<Rightarrow> error + string" where
  "parse_expr_opt None = Inr ''None''"
| "parse_expr_opt (Some e) = parse_expr e"

text \<open>\<^verbatim>\<open>map(self.parse_expr, stmt.elts)\<close>, line 119.\<close>

fun parse_exprs :: "expr list \<Rightarrow> error + string list" where
  "parse_exprs [] = Inr []"
| "parse_exprs (x # xs) =
    (case parse_expr x of
       Inl e \<Rightarrow> Inl e
     | Inr s \<Rightarrow> (case parse_exprs xs of Inl e \<Rightarrow> Inl e | Inr ss \<Rightarrow> Inr (s # ss)))"

subsection \<open>Statements\<close>

text \<open>
  \<^verbatim>\<open>ast.alias(name, asname)\<close>, with the address of the object first; the source never
  reads \<^verbatim>\<open>asname\<close>. \<^verbatim>\<open>ast.arg(arg, annotation)\<close>. Of \<^verbatim>\<open>ast.arguments\<close> the source
  reads the attribute \<^verbatim>\<open>args\<close> only.
\<close>

datatype import_alias = Alias nat string

datatype arg = Arg string "expr option"

datatype arguments = Arguments "arg list"

text \<open>
  Statement nodes. The first field is \<^verbatim>\<open>col_offset\<close>; the others are the attributes
  the source reads:
  \<^verbatim>\<open>Expr(value)\<close>, \<^verbatim>\<open>AnnAssign(target, annotation, value)\<close>, \<^verbatim>\<open>Assign(targets, value)\<close>,
  \<^verbatim>\<open>Return(value)\<close>, \<^verbatim>\<open>For(target, iter, body)\<close>, \<^verbatim>\<open>AugAssign(target, op, value)\<close>,
  \<^verbatim>\<open>If(test, body)\<close>, \<^verbatim>\<open>Import(names)\<close>, \<^verbatim>\<open>ImportFrom(module, names, level)\<close>,
  \<^verbatim>\<open>Raise(exc)\<close>, \<^verbatim>\<open>FunctionDef(name, args, body, decorator_list, returns)\<close>.
  \<open>ListStmt\<close> is an \<^verbatim>\<open>ast.List\<close> node standing in a list of statements, which line 118
  provides for and which no parsed tree contains. \<open>OtherStmt\<close> is a statement of any
  other class (\<^verbatim>\<open>ClassDef\<close>, \<^verbatim>\<open>While\<close>, \<^verbatim>\<open>Try\<close>, ...), given by its class name.
\<close>

datatype stmt =
    Expr nat expr
  | Pass nat
  | ListStmt nat "expr list"
  | AnnAssign nat expr expr "expr option"
  | Assign nat "expr list" expr
  | Return nat "expr option"
  | For nat expr expr "stmt list"
  | AugAssign nat expr opkind expr
  | If_stmt nat expr "stmt list"
  | Import nat "import_alias list"
  | ImportFrom nat "string option" "import_alias list" nat
  | Raise nat "expr option"
  | FunctionDef nat string arguments "stmt list" "expr list" "expr option"
  | OtherStmt nat string

fun col_offset :: "stmt \<Rightarrow> nat" where
  "col_offset (Expr col v) = col"
| "col_offset (Pass col) = col"
| "col_offset (ListStmt col elts) = col"
| "col_offset (AnnAssign col target annotation v) = col"
| "col_offset (Assign col targets v) = col"
| "col_offset (Return col v) = col"
| "col_offset (For col target iter body) = col"
| "col_offset (AugAssign col target op v) = col"
| "col_offset (If_stmt col test body) = col"
| "col_offset (Import col names) = col"
| "col_offset (ImportFrom col module names level) = col"
| "col_offset (Raise col exc) = col"
| "col_offset (FunctionDef col name args body decorator_list returns) = col"
| "col_offset (OtherStmt col c) = col"

text \<open>\<^verbatim>\<open>node.id\<close>: only a \<^verbatim>\<open>Name\<close> has the attribute.\<close>

fun get_id :: "expr \<Rightarrow> error + string" where
  "get_id (Name a i) = Inr i"
| "get_id e = Inl (AttributeError (class_name e) ''id'')"

text \<open>
  \<^verbatim>\<open>parse_args\<close> on an \<^verbatim>\<open>ast.arguments\<close> (lines 227-229): a node is true, \<^verbatim>\<open>None\<close> is
  false.
\<close>

fun parse_arg :: "arg \<Rightarrow> error + string" where
  "parse_arg (Arg name None) = Inr name"
| "parse_arg (Arg name (Some annotation)) =
    (case get_id annotation of Inl e \<Rightarrow> Inl e | Inr t \<Rightarrow> Inr (t @ '' '' @ name))"

fun parse_arg_list :: "arg list \<Rightarrow> error + string list" where
  "parse_arg_list [] = Inr []"
| "parse_arg_list (x # xs) =
    (case parse_arg x of
       Inl e \<Rightarrow> Inl e
     | Inr s \<Rightarrow> (case parse_arg_list xs of Inl e \<Rightarrow> Inl e | Inr ss \<Rightarrow> Inr (s # ss)))"

fun parse_args_arguments :: "arguments \<Rightarrow> error + string" where
  "parse_args_arguments (Arguments args) =
    (case parse_arg_list args of Inl e \<Rightarrow> Inl e | Inr ss \<Rightarrow> Inr (join '', '' ss))"

text \<open>
  \<^verbatim>\<open>parse_args\<close> on the list of \<^verbatim>\<open>ast.alias\<close> of an \<^verbatim>\<open>Import\<close> (line 137): an alias is
  no \<^verbatim>\<open>Name\<close> and no \<^verbatim>\<open>Constant\<close>, so \<^verbatim>\<open>parse_atom\<close> calls \<^verbatim>\<open>parse_expr\<close>; it has no
  attribute \<^verbatim>\<open>value\<close> and is no \<^verbatim>\<open>Call\<close>, \<^verbatim>\<open>BinOp\<close> or \<^verbatim>\<open>Compare\<close>, so line 216 gives
  \<^verbatim>\<open>str\<close> of the object.
\<close>

fun str_alias :: "import_alias \<Rightarrow> string" where
  "str_alias (Alias a name) = object_str ''alias'' a"

definition parse_args_aliases :: "import_alias list \<Rightarrow> string" where
  "parse_args_aliases names = join '', '' (map str_alias names)"

fun alias_name :: "import_alias \<Rightarrow> string" where
  "alias_name (Alias a name) = name"

text \<open>
  The loop over \<^verbatim>\<open>stmt.decorator_list\<close>, lines 152-159, with the list \<^verbatim>\<open>options\<close> as
  accumulator. \<^verbatim>\<open>decorator.func\<close> needs a \<^verbatim>\<open>Call\<close>, and \<^verbatim>\<open>.id\<close> a \<^verbatim>\<open>Name\<close>.
\<close>

fun decorator_options :: "string list \<Rightarrow> expr list \<Rightarrow> error + string list" where
  "decorator_options options [] = Inr options"
| "decorator_options options (Call a f args # ds) =
    (case get_id f of
       Inl e \<Rightarrow> Inl e
     | Inr i \<Rightarrow>
         if i = ''no_gil'' then decorator_options (options @ [''nogil'']) ds
         else if i = ''except_error'' then
           (case parse_args_list args of
              Inl e \<Rightarrow> Inl e
            | Inr r \<Rightarrow> decorator_options (options @ [''except '' @ r]) ds)
         else decorator_options options ds)"
| "decorator_options options (d # ds) = Inl (AttributeError (class_name d) ''func'')"

text \<open>
  \<^verbatim>\<open>parse_stmt\<close> (lines 105-166) and \<^verbatim>\<open>parse_body\<close> (lines 168-182). The result of
  \<open>parse_stmt\<close> is \<open>Inr None\<close> where the source returns \<^verbatim>\<open>None\<close>: no case of the
  \<^verbatim>\<open>match\<close> fits, or the \<^verbatim>\<open>Raise\<close> has neither a name nor a call. \<open>parse_body_loop\<close> is
  the loop of \<^verbatim>\<open>parse_body\<close> with its accumulator \<^verbatim>\<open>r\<close>.
\<close>

fun parse_stmt :: "stmt \<Rightarrow> error + string option"
  and parse_body_loop :: "string \<Rightarrow> stmt list \<Rightarrow> error + string"
  and parse_body :: "stmt list \<Rightarrow> error + string"
where
  "parse_stmt (Expr col v) =
    (case parse_value ''Expr'' v of Inl e \<Rightarrow> Inl e | Inr t \<Rightarrow> Inr (Some t))"
| "parse_stmt (Pass col) = Inr (Some (space col @ ''...''))"
| "parse_stmt (ListStmt col elts) =
    (case parse_exprs elts of
       Inl e \<Rightarrow> Inl e
     | Inr ss \<Rightarrow> Inr (Some (space col @ ''['' @ join '', '' ss @ '']'')))"
| "parse_stmt (AnnAssign col target annotation v) =
    (case get_id target of
       Inl e \<Rightarrow> Inl e
     | Inr t \<Rightarrow>
         (case get_id annotation of
            Inl e \<Rightarrow> Inl e
          | Inr ann \<Rightarrow>
              (case parse_expr_opt v of
                 Inl e \<Rightarrow> Inl e
               | Inr r \<Rightarrow> Inr (Some (space col @ t @ '': '' @ ann @ '' = '' @ r)))))"
| "parse_stmt (Assign col targets v) =
    (case targets of
       [] \<Rightarrow> Inl IndexError
     | target # _ \<Rightarrow>
         (case get_id target of
            Inl e \<Rightarrow> Inl e
          | Inr t \<Rightarrow>
              (case parse_expr v of
                 Inl e \<Rightarrow> Inl e
               | Inr r \<Rightarrow> Inr (Some (space col @ t @ '' = '' @ r)))))"
| "parse_stmt (Return col v) =
    (case parse_expr_opt v of
       Inl e \<Rightarrow> Inl e
     | Inr r \<Rightarrow> Inr (Some (space col @ ''return '' @ r)))"
| "parse_stmt (For col target iter body) =
    (case get_id target of
       Inl e \<Rightarrow> Inl e
     | Inr t \<Rightarrow>
         (case parse_expr iter of
            Inl e \<Rightarrow> Inl e
          | Inr it \<Rightarrow>
              (case parse_body body of
                 Inl e \<Rightarrow> Inl e
               | Inr b \<Rightarrow>
                   Inr (Some (space col @ ''for '' @ t @ '' in '' @ it @ '':'' @ nl @ b @ nl)))))"
| "parse_stmt (AugAssign col target op v) =
    (case operators (OpClass op) of
       None \<Rightarrow> Inl (KeyError (OpClass op))
     | Some symb \<Rightarrow>
         (case parse_expr v of
            Inl e \<Rightarrow> Inl e
          | Inr r \<Rightarrow>
              Inr (Some (space col @ str_node target @ '' '' @ symb @ ''= '' @ r))))"
| "parse_stmt (If_stmt col test body) =
    (case parse_expr test of
       Inl e \<Rightarrow> Inl e
     | Inr t \<Rightarrow>
         (case parse_body body of
            Inl e \<Rightarrow> Inl e
          | Inr b \<Rightarrow> Inr (Some (space col @ ''if '' @ t @ '':'' @ nl @ b @ nl))))"
| "parse_stmt (Import col names) =
    Inr (Some (space col @ ''import '' @ parse_args_aliases names))"
| "parse_stmt (ImportFrom col module names level) =
    (case module of
       None \<Rightarrow>
         Inr (Some (space col @ ''from '' @ replicate level (CHR ''.'') @ '' import ''
                    @ join '', '' (map alias_name names) @ nl))
     | Some m \<Rightarrow>
         Inr (Some (space col @ ''from '' @ replicate level (CHR ''.'') @ m @ '' import ''
                    @ join '', '' (map alias_name names) @ nl)))"
| "parse_stmt (Raise col exc) =
    (case exc of
       Some (Name a i) \<Rightarrow> Inr (Some (space col @ ''raise '' @ i))
     | Some (Call a f args) \<Rightarrow>
         (case get_id f of
            Inl e \<Rightarrow> Inl e
          | Inr i \<Rightarrow>
              (case parse_args_list args of
                 Inl e \<Rightarrow> Inl e
               | Inr r \<Rightarrow> Inr (Some (space col @ ''raise '' @ i @ ''('' @ r @ ''))''))))
     | _ \<Rightarrow> Inr None)"
| "parse_stmt (FunctionDef col name args body decorator_list returns) =
    (case decorator_options [] decorator_list of
       Inl e \<Rightarrow> Inl e
     | Inr options \<Rightarrow>
         (case returns of
            Some ret \<Rightarrow>
              (case get_id ret of
                 Inl e \<Rightarrow> Inl e
               | Inr t \<Rightarrow>
                   (case parse_args_arguments args of
                      Inl e \<Rightarrow> Inl e
                    | Inr ps \<Rightarrow>
                        (case parse_body body of
                           Inl e \<Rightarrow> Inl e
                         | Inr b \<Rightarrow>
                             Inr (Some (space col @ ''cdef '' @ t @ '' '' @ name @ ''('' @ ps
                                        @ '') '' @ join '', '' options @ '':'' @ nl @ b @ nl)))))
          | None \<Rightarrow>
              (case parse_args_arguments args of
                 Inl e \<Rightarrow> Inl e
               | Inr ps \<Rightarrow>
                   (case parse_body body of
                      Inl e \<Rightarrow> Inl e
                    | Inr b \<Rightarrow>
                        Inr (Some (space col @ ''def '' @ name @ ''('' @ ps @ '') ''
                                   @ join '', '' options @ '':'' @ nl @ b @ nl))))))"
| "parse_stmt (OtherStmt col c) = Inr None"
| "parse_body_loop r [] = Inr r"
| "parse_body_loop r (stmt # stmts) =
    (case parse_stmt stmt of
       Inl e \<Rightarrow> Inl e
     | Inr None \<Rightarrow> parse_body_loop r stmts
     | Inr (Some s) \<Rightarrow> parse_body_loop (r @ s) stmts)"
| "parse_body body = parse_body_loop [] body"

subsection \<open>\<^verbatim>\<open>Generator.__init__\<close>\<close>

text \<open>
  The files are a map from path to contents. \<^verbatim>\<open>ast.parse\<close> is outside the repository
  and is a parameter \<open>ast_parse\<close> of the model: it gives the \<^verbatim>\<open>body\<close> of the parsed
  module or raises.
\<close>

type_synonym files = "string \<rightharpoonup> string"

text \<open>
  Lines 68-75: the text to parse. With no filename the text is \<^verbatim>\<open>code\<close>, which the check
  of line 69 has shown not to be \<^verbatim>\<open>None\<close> (\<^verbatim>\<open>ast.parse(None)\<close> would raise a
  \<^verbatim>\<open>TypeError\<close> too).
\<close>

definition read_code :: "files \<Rightarrow> string option \<Rightarrow> string option \<Rightarrow> error + string" where
  "read_code fs filename code =
    (if filename = None \<and> code = None
     then Inl (TypeError ''filename or code must be specified'')
     else
       (case filename of
          Some fn \<Rightarrow> (case fs fn of None \<Rightarrow> Inl (FileNotFoundError fn) | Some txt \<Rightarrow> Inr txt)
        | None \<Rightarrow>
            (case code of
               None \<Rightarrow> Inl (TypeError ''compile() arg 1 must be a string, bytes or AST object'')
             | Some c \<Rightarrow> Inr c)))"

text \<open>
  Lines 79-83: the loop over \<^verbatim>\<open>tree.body\<close> with the accumulator \<^verbatim>\<open>generate\<close>. Where
  \<^verbatim>\<open>parse_stmt\<close> returns \<^verbatim>\<open>None\<close>, \<^verbatim>\<open>None + '\n'\<close> raises a \<^verbatim>\<open>TypeError\<close>.
\<close>

definition none_plus_str :: string where
  "none_plus_str =
    ''unsupported operand type(s) for +: '' @ quote @ ''NoneType'' @ quote
      @ '' and '' @ quote @ ''str'' @ quote"

fun generate_loop :: "string \<Rightarrow> stmt list \<Rightarrow> error + string" where
  "generate_loop generate [] = Inr generate"
| "generate_loop generate (node # nodes) =
    (case parse_stmt node of
       Inl e \<Rightarrow> Inl e
     | Inr None \<Rightarrow> Inl (TypeError none_plus_str)
     | Inr (Some s) \<Rightarrow> generate_loop (generate @ s @ nl) nodes)"

text \<open>Lines 79-87: render the tree, then write \<^verbatim>\<open>generated.pyx\<close> (mode \<^verbatim>\<open>'w'\<close>).\<close>

definition render_tree :: "files \<Rightarrow> stmt list \<Rightarrow> (error + unit) \<times> files" where
  "render_tree fs body =
    (case generate_loop [] body of
       Inl e \<Rightarrow> (Inl e, fs)
     | Inr generate \<Rightarrow> (Inr (), fs(''generated.pyx'' \<mapsto> generate)))"

text \<open>
  \<^verbatim>\<open>Generator(filename=..., code=...)\<close>, lines 59-87: the result, and the files after
  the call.
\<close>

definition Generator ::
  "(string \<Rightarrow> error + stmt list) \<Rightarrow> files \<Rightarrow> string option \<Rightarrow> string option
    \<Rightarrow> (error + unit) \<times> files" where
  "Generator ast_parse fs filename code =
    (case read_code fs filename code of
       Inl e \<Rightarrow> (Inl e, fs)
     | Inr txt \<Rightarrow>
         (case ast_parse txt of
            Inl e \<Rightarrow> (Inl e, fs)
          | Inr body \<Rightarrow> render_tree fs body))"

subsection \<open>Notions of the specification\<close>

text \<open>
  The option token of one decorator marker, in the words of the specification: the
  no-lock marker \<^verbatim>\<open>no_gil(...)\<close> gives \<^verbatim>\<open>nogil\<close>, the filtered-exception marker
  \<^verbatim>\<open>except_error(arg)\<close> gives \<^verbatim>\<open>except\<close> and the rendered argument, and any other
  decorator gives no token.
\<close>

fun option_token :: "expr \<Rightarrow> string list" where
  "option_token (Call a (Name fa i) args) =
    (if i = ''no_gil'' then [''nogil'']
     else if i = ''except_error'' then
       (case parse_args_list args of Inl e \<Rightarrow> [] | Inr r \<Rightarrow> [''except '' @ r])
     else [])"
| "option_token d = []"

text \<open>
  The two header forms: after the indentation the text goes on with \<^verbatim>\<open>cdef\<close>, or with
  \<^verbatim>\<open>def\<close>.
\<close>

definition has_cdef_header :: "nat \<Rightarrow> string \<Rightarrow> bool" where
  "has_cdef_header col t = (take (col + 5) t = space col @ ''cdef '')"

definition has_def_header :: "nat \<Rightarrow> string \<Rightarrow> bool" where
  "has_def_header col t = (take (col + 4) t = space col @ ''def '')"

text \<open>
  An identifier of a parsed tree is not empty and does not begin with a space.
  \<open>first_id_clean\<close> asks this of the identifier that follows the indentation of an
  assignment.
\<close>

definition starts_clean :: "string \<Rightarrow> bool" where
  "starts_clean i = (case i of [] \<Rightarrow> False | c # _ \<Rightarrow> c \<noteq> CHR '' '')"

fun first_id_clean :: "stmt \<Rightarrow> bool" where
  "first_id_clean (AnnAssign col (Name a i) annotation v) = starts_clean i"
| "first_id_clean (Assign col (Name a i # targets) v) = starts_clean i"
| "first_id_clean s = True"

fun is_Expr :: "stmt \<Rightarrow> bool" where
  "is_Expr (Expr col v) = True"
| "is_Expr s = False"






section \<open>Properties\<close>

subsection \<open>Auxiliary facts\<close>

lemma dec_digit: "n < 10 \<Longrightarrow> dec n = [digit_char n]"
  by (simp add: dec.simps)

lemma length_space: "length (space n) = n"
  by (simp add: space_def)

lemma leading_spaces_space: "starts_clean r \<Longrightarrow> leading_spaces (space n @ r) = n"
  by (cases r) (simp_all add: starts_clean_def leading_spaces_def space_def takeWhile_append)

lemma starts_clean_append: "starts_clean r \<Longrightarrow> starts_clean (r @ q)"
  by (cases r) (simp_all add: starts_clean_def)

lemma starts_clean_object_str: "starts_clean (object_str c a @ q)"
  by (simp add: starts_clean_def object_str_def)

text \<open>
  The loop over the decorators appends, in the order of the declaration, the token of each
  marker to the options it started with.
\<close>

lemma decorator_options_tokens:
  "decorator_options acc ds = Inr opts \<Longrightarrow> opts = acc @ concat (map option_token ds)"
proof (induction ds arbitrary: acc)
  case Nil
  then show ?case by simp
next
  case (Cons d ds)
  show ?case
  proof (cases d)
    case (Call a f args)
    show ?thesis
    proof (cases f)
      case (Name fa i)
      with Cons.prems Call show ?thesis
        by (auto split: if_splits sum.splits dest: Cons.IH)
    qed (use Cons Call in simp_all)
  qed (use Cons in simp_all)
qed

text \<open>The text of a function definition, where \<^verbatim>\<open>parse_stmt\<close> returns one.\<close>

lemma FunctionDef_text:
  assumes "parse_stmt (FunctionDef col name args body decs returns) = Inr (Some t)"
  shows "\<exists>opts ps b.
           decorator_options [] decs = Inr opts \<and> parse_args_arguments args = Inr ps
           \<and> parse_body body = Inr b
           \<and> (case returns of
                 Some ret \<Rightarrow>
                   \<exists>ty. get_id ret = Inr ty
                     \<and> t = space col @ ''cdef '' @ ty @ '' '' @ name @ ''('' @ ps @ '') ''
                           @ join '', '' opts @ '':'' @ nl @ b @ nl
               | None \<Rightarrow>
                   t = space col @ ''def '' @ name @ ''('' @ ps @ '') ''
                       @ join '', '' opts @ '':'' @ nl @ b @ nl)"
  using assms by (auto split: sum.splits option.splits)

subsection \<open>The operator table\<close>

text \<open>
  C5. The operator table is total over the enumerated operator set: for each of add,
  subtract, multiply, divide, power, modulo, left shift, right shift, bitwise or, xor and
  and, floor-divide, equality, inequality, the four ordering comparisons, is, is not, in
  and not in, the lookup gives the symbol of that operator, and no entry is missing.
\<close>

theorem operators_total:
  "map operators
     [OpClass Add, OpClass Sub, OpClass Mult, OpClass Div, OpClass Pow_op, OpClass Mod,
      OpClass LShift, OpClass RShift, OpClass BitOr, OpClass BitXor, OpClass BitAnd,
      OpClass FloorDiv, OpClass Eq, OpClass NotEq, OpClass Lt, OpClass LtE, OpClass Gt,
      OpClass GtE, OpClass Is, OpClass IsNot, OpClass In, OpClass NotIn]
   = map Some
     [''+'', ''-'', ''*'', ''/'', ''**'', ''%'', ''<<'', ''>>'', ''|'', ''^'', ''&'', ''//'',
      ''=='', ''!='', ''<'', ''<='', ''>'', ''>='', ''is'', ''is not'', ''in'', ''not in'']"
  by (simp add: operators_def operators_table_def)

subsection \<open>Indentation\<close>

text \<open>
  For every statement but a plain expression statement the text begins with exactly
  \<^verbatim>\<open>col_offset\<close> spaces, the identifiers being those of a parsed tree.
\<close>

lemma indentation_law:
  assumes "parse_stmt s = Inr (Some t)" and "\<not> is_Expr s" and "first_id_clean s"
  shows "leading_spaces t = col_offset s"
proof (cases s)
  case (AnnAssign col target annotation v)
  with assms show ?thesis
    by (cases target) (auto split: sum.splits intro!: leading_spaces_space starts_clean_append)
next
  case (Assign col targets v)
  with assms show ?thesis
    apply (cases targets; simp)
    subgoal for target rest
      by (cases target) (auto split: sum.splits intro!: leading_spaces_space starts_clean_append)
    done
next
  case (AugAssign col target op v)
  with assms show ?thesis
    by (auto split: sum.splits option.splits simp: str_node_def
        intro!: leading_spaces_space starts_clean_object_str)
next
  case (Raise col exc)
  with assms show ?thesis
    by (auto split: sum.splits option.splits expr.splits intro!: leading_spaces_space
        simp: starts_clean_def)
qed (use assms in \<open>auto split: sum.splits option.splits intro!: leading_spaces_space
      simp: starts_clean_def\<close>)

text \<open>
  C1. The claim: for every rendered statement of a recognized kind, plain expression
  statements included, the number of leading spaces of the text of \<^verbatim>\<open>parse_stmt\<close> is the
  column offset of the node. The source (line 115) returns the text of an expression
  statement with no indentation: the statement \<^verbatim>\<open>print(1)\<close> at column offset 4, as in the
  body of \<^verbatim>\<open>def f():\<close>, renders to \<^verbatim>\<open>print(1)\<close> with no leading space, and the function
  to \<^verbatim>\<open>def f() :\nprint(1)\n\<close>.
\<close>

theorem expr_stmt_not_indented:
  "parse_stmt (Expr 4 (Call a (Name b ''print'') [Constant c (CInt 1)]))
     = Inr (Some ''print(1)'')
   \<and> leading_spaces ''print(1)'' = 0
   \<and> col_offset (Expr 4 (Call a (Name b ''print'') [Constant c (CInt 1)])) = 4
   \<and> parse_stmt (FunctionDef 0 ''f'' (Arguments [])
        [Expr 4 (Call a (Name b ''print'') [Constant c (CInt 1)])] [] None)
     = Inr (Some (''def f() :'' @ nl @ ''print(1)'' @ nl))"
  by (simp add: str_int_def dec_digit digit_char_def space_def leading_spaces_def)

subsection \<open>Function definitions\<close>

text \<open>
  Where \<^verbatim>\<open>parse_stmt\<close> returns a text for a function definition, the text has the
  \<^verbatim>\<open>cdef\<close> header exactly when there is a return annotation, and the \<^verbatim>\<open>def\<close> header
  exactly when there is none.
\<close>

lemma function_header_forms:
  assumes "parse_stmt (FunctionDef col name args body decs returns) = Inr (Some t)"
  shows "(has_cdef_header col t \<longleftrightarrow> returns \<noteq> None)
         \<and> (has_def_header col t \<longleftrightarrow> returns = None)"
proof -
  from FunctionDef_text[OF assms] obtain opts ps b where
    t: "(case returns of
           Some ret \<Rightarrow>
             \<exists>ty. get_id ret = Inr ty
               \<and> t = space col @ ''cdef '' @ ty @ '' '' @ name @ ''('' @ ps @ '') ''
                     @ join '', '' opts @ '':'' @ nl @ b @ nl
         | None \<Rightarrow>
             t = space col @ ''def '' @ name @ ''('' @ ps @ '') ''
                 @ join '', '' opts @ '':'' @ nl @ b @ nl)"
    by blast
  show ?thesis
  proof (cases returns)
    case None
    with t show ?thesis
      by (simp add: has_cdef_header_def has_def_header_def length_space)
  next
    case (Some ret)
    with t show ?thesis
      by (auto simp: has_cdef_header_def has_def_header_def length_space)
  qed
qed

text \<open>A return annotation that is no plain name, as in \<^verbatim>\<open>def f() -> None\<close>, raises.\<close>

lemma returns_not_a_name:
  "parse_stmt (FunctionDef 0 ''f'' (Arguments []) [Pass 4] [] (Some (Constant a CNone)))
     = Inl (AttributeError ''Constant'' ''id'')"
  by simp

text \<open>
  C2. The claim: a function definition with a return annotation renders to the \<^verbatim>\<open>cdef\<close>
  header form and one without to the \<^verbatim>\<open>def\<close> header form, and
  \<^verbatim>\<open>def f(x: int) -> int:\<close> with the body \<^verbatim>\<open>return x\<close> renders to
  \<^verbatim>\<open>cdef int f(int x) :\n    return x\n\<close>. In the source the value of the \<^verbatim>\<open>return\<close>
  goes to \<^verbatim>\<open>parse_expr\<close>, where a \<^verbatim>\<open>Name\<close> has no attribute \<^verbatim>\<open>value\<close> and is no call,
  binary operation or comparison, so that line 216 gives \<^verbatim>\<open>str\<close> of the node: the header
  is the claimed one, and the body is \<^verbatim>\<open>return <ast.Name object at 0x...>\<close>, whatever
  the addresses of the nodes.
\<close>

theorem return_name_scenario:
  "parse_stmt (FunctionDef 0 ''f'' (Arguments [Arg ''x'' (Some (Name a ''int''))])
      [Return 4 (Some (Name b ''x''))] [] (Some (Name c ''int'')))
     = Inr (Some (''cdef int f(int x) :'' @ nl @ ''    return '' @ object_str ''Name'' b @ nl))
   \<and> parse_stmt (FunctionDef 0 ''f'' (Arguments [Arg ''x'' (Some (Name a ''int''))])
      [Return 4 (Some (Name b ''x''))] [] (Some (Name c ''int'')))
     \<noteq> Inr (Some (''cdef int f(int x) :'' @ nl @ ''    return x'' @ nl))"
  by (simp add: space_def str_node_def numeral_eq_Suc object_str_def)

text \<open>
  C7 (as amended). Where \<^verbatim>\<open>parse_stmt\<close> returns a text for a function definition, the
  option tokens of the decorator markers stand in the header in the order of the
  declaration, \<^verbatim>\<open>nogil\<close> for \<^verbatim>\<open>no_gil\<close> and \<^verbatim>\<open>except\<close> with the rendered arguments for
  \<^verbatim>\<open>except_error\<close>, joined by a comma and a space; with no token the segment between
  \<^verbatim>\<open>) \<close> and the colon is empty and is still there.
\<close>

theorem decorator_options_in_header:
  assumes "parse_stmt (FunctionDef col name args body decs returns) = Inr (Some t)"
  shows "\<exists>ps b.
           parse_args_arguments args = Inr ps \<and> parse_body body = Inr b
           \<and> (case returns of
                 Some ret \<Rightarrow>
                   \<exists>ty. get_id ret = Inr ty
                     \<and> t = space col @ ''cdef '' @ ty @ '' '' @ name @ ''('' @ ps @ '') ''
                           @ join '', '' (concat (map option_token decs)) @ '':'' @ nl @ b @ nl
               | None \<Rightarrow>
                   t = space col @ ''def '' @ name @ ''('' @ ps @ '') ''
                       @ join '', '' (concat (map option_token decs)) @ '':'' @ nl @ b @ nl)"
proof -
  from FunctionDef_text[OF assms] obtain opts ps b where
    opts: "decorator_options [] decs = Inr opts"
    and rest: "parse_args_arguments args = Inr ps" "parse_body body = Inr b"
    and t: "(case returns of
           Some ret \<Rightarrow>
             \<exists>ty. get_id ret = Inr ty
               \<and> t = space col @ ''cdef '' @ ty @ '' '' @ name @ ''('' @ ps @ '') ''
                     @ join '', '' opts @ '':'' @ nl @ b @ nl
         | None \<Rightarrow>
             t = space col @ ''def '' @ name @ ''('' @ ps @ '') ''
                 @ join '', '' opts @ '':'' @ nl @ b @ nl)"
    by blast
  from decorator_options_tokens[OF opts] have "opts = concat (map option_token decs)"
    by simp
  with rest t show ?thesis by blast
qed

text \<open>
  The theorem at a function with both markers, \<^verbatim>\<open>@no_gil()\<close> and
  \<^verbatim>\<open>@except_error('ValueError')\<close>, and the body \<^verbatim>\<open>pass\<close>.
\<close>

theorem decorator_options_in_header_witness:
  "parse_stmt (FunctionDef 0 ''f'' (Arguments []) [Pass 4]
      [Call 1 (Name 2 ''no_gil'') [],
       Call 3 (Name 4 ''except_error'') [Constant 5 (CStr ''ValueError'')]] None)
     = Inr (Some (''def f() nogil, except '' @ quote @ ''ValueError'' @ quote @ '':'' @ nl
                  @ ''    ...'' @ nl))
   \<and> (\<exists>ps b.
         parse_args_arguments (Arguments []) = Inr ps \<and> parse_body [Pass 4] = Inr b
         \<and> ''def f() nogil, except '' @ quote @ ''ValueError'' @ quote @ '':'' @ nl
             @ ''    ...'' @ nl
           = space 0 @ ''def '' @ ''f'' @ ''('' @ ps @ '') ''
             @ join '', '' (concat (map option_token
                 [Call 1 (Name 2 ''no_gil'') [],
                  Call 3 (Name 4 ''except_error'') [Constant 5 (CStr ''ValueError'')]]))
             @ '':'' @ nl @ b @ nl)"
proof -
  have h: "parse_stmt (FunctionDef 0 ''f'' (Arguments []) [Pass 4]
      [Call 1 (Name 2 ''no_gil'') [],
       Call 3 (Name 4 ''except_error'') [Constant 5 (CStr ''ValueError'')]] None)
     = Inr (Some (''def f() nogil, except '' @ quote @ ''ValueError'' @ quote @ '':'' @ nl
                  @ ''    ...'' @ nl))"
    by (simp add: space_def numeral_eq_Suc)
  from decorator_options_in_header[OF h] h show ?thesis
    by simp
qed

text \<open>
  The claim as it was stated has the tokens joined by a space. The function with both
  markers renders with \<^verbatim>\<open>nogil, except 'ValueError'\<close> in the header, and not with
  \<^verbatim>\<open>nogil except 'ValueError'\<close>.
\<close>

theorem options_space_joined_counterexample:
  "parse_stmt (FunctionDef 0 ''f'' (Arguments []) [Pass 4]
      [Call 1 (Name 2 ''no_gil'') [],
       Call 3 (Name 4 ''except_error'') [Constant 5 (CStr ''ValueError'')]] None)
     = Inr (Some (''def f() nogil, except '' @ quote @ ''ValueError'' @ quote @ '':'' @ nl
                  @ ''    ...'' @ nl))
   \<and> parse_stmt (FunctionDef 0 ''f'' (Arguments []) [Pass 4]
      [Call 1 (Name 2 ''no_gil'') [],
       Call 3 (Name 4 ''except_error'') [Constant 5 (CStr ''ValueError'')]] None)
     \<noteq> Inr (Some (''def f() nogil except '' @ quote @ ''ValueError'' @ quote @ '':'' @ nl
                  @ ''    ...'' @ nl))"
  by (simp add: space_def numeral_eq_Suc)

subsection \<open>Comparisons\<close>

text \<open>
  No comparison renders: after the left operand the source looks up the type of the list
  \<^verbatim>\<open>expr.ops\<close> in \<^verbatim>\<open>operators\<close>, which has no such key.
\<close>

lemma compare_never_renders: "parse_expr (Compare a l ops cs) \<noteq> Inr t"
  by (simp add: operators_def operators_table_def split: sum.splits)

text \<open>
  C3. The claim: a comparison renders to the left operand, the symbol of its first
  operator and its first comparator, so that \<^verbatim>\<open>a < b\<close> renders to \<^verbatim>\<open>a < b\<close>. The source
  (line 213) takes \<^verbatim>\<open>type(expr.ops)\<close>, the type \<^verbatim>\<open>list\<close>, where the binary operation
  of line 211 takes the type of the operator: the comparison \<^verbatim>\<open>a < b\<close> raises a
  \<^verbatim>\<open>KeyError\<close>, in \<^verbatim>\<open>parse_expr\<close> and so in \<^verbatim>\<open>if a < b: pass\<close>.
\<close>

theorem compare_raises:
  "parse_expr (Compare a (Name b ''a'') [Lt] [Name c ''b'']) = Inl (KeyError ListClass)
   \<and> parse_stmt (If_stmt 0 (Compare a (Name b ''a'') [Lt] [Name c ''b'']) [Pass 4])
     = Inl (KeyError ListClass)"
  by (simp add: operators_def operators_table_def)

subsection \<open>Augmented assignment\<close>

text \<open>
  C6. The claim: an augmented assignment renders to the indentation, the identifier of
  the target, the symbol of the operator with \<^verbatim>\<open>=\<close>, and the rendered value. The source
  (line 131) formats \<^verbatim>\<open>stmt.target\<close>, the node, where the other assignments format
  \<^verbatim>\<open>stmt.target.id\<close>: \<^verbatim>\<open>x += 1\<close> renders to \<^verbatim>\<open><ast.Name object at 0x...> += 1\<close> after
  the indentation, and not to \<^verbatim>\<open>x += 1\<close>.
\<close>

theorem augassign_target_text:
  "parse_stmt (AugAssign col (Name a ''x'') Add (Constant b (CInt 1)))
     = Inr (Some (space col @ object_str ''Name'' a @ '' += 1''))
   \<and> parse_stmt (AugAssign col (Name a ''x'') Add (Constant b (CInt 1)))
     \<noteq> Inr (Some (space col @ ''x += 1''))"
  by (simp add: operators_def operators_table_def str_node_def str_int_def dec_digit
      digit_char_def object_str_def)

subsection \<open>Statements of other kinds\<close>

text \<open>
  C4. The claim: a statement whose kind has no case, such as a class definition, gives no
  output line and raises nothing, in a body and in the list of top-level statements. In
  the source \<^verbatim>\<open>parse_stmt\<close> returns \<^verbatim>\<open>None\<close> for it; \<^verbatim>\<open>parse_body\<close> (line 179) skips a
  \<^verbatim>\<open>None\<close>, and the loop of \<^verbatim>\<open>__init__\<close> (line 83) adds \<^verbatim>\<open>'\n'\<close> to it, which raises a
  \<^verbatim>\<open>TypeError\<close> before any file is written.
\<close>

theorem unmatched_statement_top_level:
  "parse_stmt (OtherStmt col ''ClassDef'') = Inr None
   \<and> parse_body [OtherStmt 4 ''ClassDef''] = Inr []
   \<and> generate_loop [] [OtherStmt 0 ''ClassDef''] = Inl (TypeError none_plus_str)
   \<and> Generator (\<lambda>src. Inr [OtherStmt 0 ''ClassDef'']) fs None (Some ''class A: pass'')
     = (Inl (TypeError none_plus_str), fs)"
  by (simp add: Generator_def read_code_def render_tree_def)

subsection \<open>The generator\<close>

text \<open>
  C8. With neither a filename nor inline code, \<^verbatim>\<open>Generator\<close> raises the \<^verbatim>\<open>TypeError\<close>
  of line 70 at once: nothing is parsed, and the files are as they were.
\<close>

theorem no_input_raises:
  "Generator ast_parse fs None None
     = (Inl (TypeError ''filename or code must be specified''), fs)"
  by (simp add: Generator_def read_code_def)

text \<open>
  The text of an object determines its address: the hexadecimal digits of two different
  addresses differ.
\<close>

lemma digit_char_inj: "a < 16 \<Longrightarrow> b < 16 \<Longrightarrow> digit_char a = digit_char b \<Longrightarrow> a = b"
proof -
  have d: "distinct ''0123456789abcdef''" by simp
  have l: "length ''0123456789abcdef'' = 16" by simp
  assume "a < 16" "b < 16" "digit_char a = digit_char b"
  with nth_eq_iff_index_eq[OF d, of a b] l show "a = b"
    by (simp add: digit_char_def)
qed

lemma hex_not_Nil: "hex n \<noteq> []"
  by (subst hex.simps) simp

lemma hex_inj: "hex a = hex b \<Longrightarrow> a = b"
proof (induction a arbitrary: b rule: hex.induct)
  case (1 a)
  show ?case
  proof (cases "a < 16")
    case True
    then have ha: "hex a = [digit_char a]" by (subst hex.simps) simp
    show ?thesis
    proof (cases "b < 16")
      case b: True
      then have "hex b = [digit_char b]" by (subst hex.simps) simp
      with ha "1.prems" True b show ?thesis by (simp add: digit_char_inj)
    next
      case b: False
      then have "hex b = hex (b div 16) @ [digit_char (b mod 16)]" by (subst hex.simps) simp
      with ha "1.prems" hex_not_Nil[of "b div 16"] show ?thesis by simp
    qed
  next
    case False
    then have ha: "hex a = hex (a div 16) @ [digit_char (a mod 16)]" by (subst hex.simps) simp
    show ?thesis
    proof (cases "b < 16")
      case b: True
      then have "hex b = [digit_char b]" by (subst hex.simps) simp
      with ha "1.prems" hex_not_Nil[of "a div 16"] show ?thesis by simp
    next
      case b: False
      then have hb: "hex b = hex (b div 16) @ [digit_char (b mod 16)]" by (subst hex.simps) simp
      from ha hb "1.prems" have e: "hex (a div 16) = hex (b div 16)"
        and d: "digit_char (a mod 16) = digit_char (b mod 16)" by simp_all
      from "1.IH"[OF False e] have q: "a div 16 = b div 16" .
      from d have r: "a mod 16 = b mod 16" by (simp add: digit_char_inj)
      from q r show ?thesis by (metis div_mult_mod_eq)
    qed
  qed
qed



text \<open>
  Two augmented assignments that are the same but for the address of the target node
  never render to the same text.
\<close>

lemma augassign_addresses:
  "a \<noteq> a' \<Longrightarrow>
   parse_stmt (AugAssign col (Name a i) Add v) = Inr (Some t) \<Longrightarrow>
   parse_stmt (AugAssign col (Name a' i) Add v) \<noteq> Inr (Some t)"
  by (auto simp: operators_def operators_table_def str_node_def object_str_def
      dest: hex_inj split: sum.splits)


text \<open>
  C10. With both a filename and inline code, the filename wins. The result of
  \<^verbatim>\<open>Generator\<close> is given by the file alone: where the file is missing \<^verbatim>\<open>open\<close> raises,
  and otherwise the contents of the file are what is parsed, and the statements of its
  tree are what is rendered and written to \<^verbatim>\<open>generated.pyx\<close>. The inline code \<open>c\<close> has
  no part in it.
\<close>

theorem filename_takes_precedence:
  "Generator ast_parse fs (Some fn) (Some c) =
    (case fs fn of
       None \<Rightarrow> (Inl (FileNotFoundError fn), fs)
     | Some txt \<Rightarrow>
         (case ast_parse txt of
            Inl e \<Rightarrow> (Inl e, fs)
          | Inr body \<Rightarrow>
              (case generate_loop [] body of
                 Inl e \<Rightarrow> (Inl e, fs)
               | Inr generate \<Rightarrow> (Inr (), fs(''generated.pyx'' \<mapsto> generate)))))"
  by (simp add: Generator_def read_code_def render_tree_def split: option.splits sum.splits)

text \<open>
  The theorem at the file \<^verbatim>\<open>test.py\<close> holding \<^verbatim>\<open>y = 2\<close>, with the inline code
  \<^verbatim>\<open>x = 1\<close>: the output is \<^verbatim>\<open>y = 2\<close>, where the inline code alone gives \<^verbatim>\<open>x = 1\<close>.
\<close>

theorem filename_takes_precedence_witness:
  "Generator (\<lambda>src. if src = ''y = 2'' then Inr [Assign 0 [Name 1 ''y''] (Constant 2 (CInt 2))]
                   else if src = ''x = 1'' then Inr [Assign 0 [Name 3 ''x''] (Constant 4 (CInt 1))]
                   else Inl SyntaxError)
        [''test.py'' \<mapsto> ''y = 2''] (Some ''test.py'') (Some ''x = 1'')
     = (Inr (), [''test.py'' \<mapsto> ''y = 2'', ''generated.pyx'' \<mapsto> ''y = 2'' @ nl])
   \<and> Generator (\<lambda>src. if src = ''y = 2'' then Inr [Assign 0 [Name 1 ''y''] (Constant 2 (CInt 2))]
                   else if src = ''x = 1'' then Inr [Assign 0 [Name 3 ''x''] (Constant 4 (CInt 1))]
                   else Inl SyntaxError)
        [''test.py'' \<mapsto> ''y = 2''] None (Some ''x = 1'')
     = (Inr (), [''test.py'' \<mapsto> ''y = 2'', ''generated.pyx'' \<mapsto> ''x = 1'' @ nl])"
proof -
  have "Generator (\<lambda>src. if src = ''y = 2'' then Inr [Assign 0 [Name 1 ''y''] (Constant 2 (CInt 2))]
                   else if src = ''x = 1'' then Inr [Assign 0 [Name 3 ''x''] (Constant 4 (CInt 1))]
                   else Inl SyntaxError)
        [''test.py'' \<mapsto> ''y = 2''] None (Some ''x = 1'')
     = (Inr (), [''test.py'' \<mapsto> ''y = 2'', ''generated.pyx'' \<mapsto> ''x = 1'' @ nl])"
    by (simp add: Generator_def read_code_def render_tree_def space_def str_int_def dec_digit
        digit_char_def)
  with filename_takes_precedence
    [of "\<lambda>src. if src = ''y = 2'' then Inr [Assign 0 [Name 1 ''y''] (Constant 2 (CInt 2))]
              else if src = ''x = 1'' then Inr [Assign 0 [Name 3 ''x''] (Constant 4 (CInt 1))]
              else Inl SyntaxError"
        "[''test.py'' \<mapsto> ''y = 2'']" "''test.py''" "''x = 1''"]
  show ?thesis
    by (simp add: space_def str_int_def dec_digit digit_char_def)
qed

end
